theory Spec2Isabelle
  imports Complex_Main "HOL-Library.Word"
begin

unbundle bit_operations_syntax

section \<open>Data model\<close>

text \<open>
  The geometry core of the layout application (\<^verbatim>\<open>src/utils/geometry.js\<close>) works on
  GeoJSON values. A position is a pair longitude, latitude; a geometry is a tagged union
  on its \<^verbatim>\<open>type\<close> field; a feature is a geometry with a property bag; a feature
  collection is the list of its features.

  JavaScript numbers are modelled as reals: every finite double is a real and the
  comparisons the code makes (\<^verbatim>\<open>minAisle > 0\<close>, \<^verbatim>\<open>count >= maxBlocks\<close>) are the
  comparisons of these reals. Rounding of arithmetic is not modelled; the places where the
  code depends on a value that is no finite number (\<^verbatim>\<open>undefined\<close>, \<^verbatim>\<open>null\<close>,
  \<^verbatim>\<open>NaN\<close>, the \<^verbatim>\<open>-Infinity\<close> of \<^verbatim>\<open>Math.max()\<close>) are written out.
\<close>

type_synonym position = "real \<times> real"

datatype geometry =
    Point position
  | MultiPoint "position list"
  | LineString "position list"
  | MultiLineString "position list list"
  | Polygon "position list list"
  | MultiPolygon "position list list list"
  | GeometryCollection "geometry list"

datatype propval = PStr string | PNum real

record feature =
  geometry :: geometry
  properties :: "(string \<times> propval) list"

datatype collection = FeatureCollection (features: "feature list")

definition featureCollection :: "feature list \<Rightarrow> collection" where
  "featureCollection fs = FeatureCollection fs"

definition polygon :: "position list list \<Rightarrow> (string \<times> propval) list \<Rightarrow> feature" where
  "polygon rings props = \<lparr>geometry = Polygon rings, properties = props\<rparr>"

text \<open>A value that may be \<^verbatim>\<open>undefined\<close>, \<^verbatim>\<open>null\<close> or \<^verbatim>\<open>NaN\<close> instead of a
  finite number: the \<^verbatim>\<open>maxBlocks\<close> argument, which the code tests for truthiness.\<close>

datatype jsval = Undefined | Null | NaN | Number real

fun truthy :: "jsval \<Rightarrow> bool" where
  "truthy (Number x) = (x \<noteq> 0)"
| "truthy _ = False"

text \<open>\<^verbatim>\<open>count >= maxBlocks\<close>: a comparison with \<^verbatim>\<open>undefined\<close> or \<^verbatim>\<open>NaN\<close> is false,
  \<^verbatim>\<open>null\<close> converts to 0.\<close>

fun count_ge :: "nat \<Rightarrow> jsval \<Rightarrow> bool" where
  "count_ge c (Number x) = (x \<le> real c)"
| "count_ge c Null = True"
| "count_ge c _ = False"

datatype error = TypeError | TurfError

section \<open>The geometry library\<close>

text \<open>
  The code calls the third-party library turf for every geometric computation. The
  library is not part of the repository; its operations are the fields of a record that
  every function of the model takes as its first argument, so each theorem holds for
  whatever these operations compute. Point features are passed as their coordinates.
  \<^verbatim>\<open>buffer\<close> returns \<^verbatim>\<open>undefined\<close> and \<^verbatim>\<open>intersect\<close> returns \<^verbatim>\<open>null\<close> when the
  result is empty: both are \<open>None\<close>. A call with a null or undefined geometry throws in
  the library; the model writes that out where the code can make such a call.
\<close>

record turf =
  destination :: "position \<Rightarrow> real \<Rightarrow> real \<Rightarrow> position"
  distance :: "position \<Rightarrow> position \<Rightarrow> real"
  bbox :: "feature \<Rightarrow> real \<times> real \<times> real \<times> real"
  pointGrid :: "real \<times> real \<times> real \<times> real \<Rightarrow> real \<Rightarrow> position list"
  squareGrid :: "real \<times> real \<times> real \<times> real \<Rightarrow> real \<Rightarrow> feature list"
  center :: "feature \<Rightarrow> position"
  centroid :: "feature \<Rightarrow> position"
  circle :: "position \<Rightarrow> real \<Rightarrow> nat \<Rightarrow> feature"
  booleanPointInPolygon :: "position \<Rightarrow> feature \<Rightarrow> bool"
  booleanWithin :: "feature \<Rightarrow> feature \<Rightarrow> bool"
  booleanIntersects :: "feature \<Rightarrow> feature \<Rightarrow> bool"
  intersect :: "feature \<Rightarrow> feature \<Rightarrow> feature option"
  buffer :: "feature \<Rightarrow> real \<Rightarrow> feature option"
  area :: "feature \<Rightarrow> real"

section \<open>Utility helpers\<close>

definition metersToKm :: "real \<Rightarrow> real" where
  "metersToKm m = m / 1000"

definition kmToMeters :: "real \<Rightarrow> real" where
  "kmToMeters km = km * 1000"

text \<open>
  \<^verbatim>\<open>mulberry32(a)\<close> returns a closure over the variable \<^verbatim>\<open>a\<close>; the model passes the
  variable as the generator's state. \<^verbatim>\<open>a += 0x6d2b79f5\<close> is an addition of numbers
  (the variable is never truncated); the bit operations convert their operands to 32
  bits, which is \<open>ToUint32\<close>; the sum in the third line is taken modulo \<open>2 ^ 32\<close> by the
  exclusive or applied to it. The addition is exact here; the code's addition of doubles
  is exact as long as the variable stays a whole number below \<open>2 ^ 53\<close>, which holds for a
  whole seed of ordinary size during the first millions of calls.
\<close>

datatype rng = Rng (rng_a: real)

definition ToUint32 :: "real \<Rightarrow> 32 word" where
  "ToUint32 x = word_of_int (if 0 \<le> x then \<lfloor>x\<rfloor> else \<lceil>x\<rceil>)"

definition mulberry32 :: "real \<Rightarrow> rng" where
  "mulberry32 a = Rng a"

definition rng_call :: "rng \<Rightarrow> real \<times> rng" where
  "rng_call g =
     (let a = rng_a g + 0x6d2b79f5;
          t0 = ToUint32 a;
          t1 = (t0 XOR drop_bit 15 t0) * (t0 OR 1);
          t2 = t1 XOR (t1 + (t1 XOR drop_bit 7 t1) * (t1 OR 61))
      in (real (unat (t2 XOR drop_bit 14 t2)) / 4294967296, Rng a))"

definition hypot :: "real \<Rightarrow> real \<Rightarrow> real" where
  "hypot x y = sqrt (x * x + y * y)"

definition atan2 :: "real \<Rightarrow> real \<Rightarrow> real" where
  "atan2 y x =
     (if 0 < x then arctan (y / x)
      else if x < 0 \<and> 0 \<le> y then arctan (y / x) + pi
      else if x < 0 then arctan (y / x) - pi
      else if 0 < y then pi / 2
      else if y < 0 then - pi / 2
      else 0)"

section \<open>Rectangle builder and grid sampler\<close>

definition move :: "turf \<Rightarrow> position \<Rightarrow> real \<Rightarrow> real \<Rightarrow> position" where
  "move T pt distM bearingDeg = destination T pt (distM / 1000) bearingDeg"

definition buildRect ::
  "turf \<Rightarrow> position \<Rightarrow> real \<Rightarrow> real \<Rightarrow> real \<Rightarrow> (string \<times> propval) list \<Rightarrow> feature" where
  "buildRect T centerLngLat width height rotationDeg props =
     (let halfW = width / 2;
          halfH = height / 2;
          TL = move T (move T centerLngLat halfW rotationDeg) halfH (rotationDeg + 90);
          TR = move T (move T centerLngLat halfW rotationDeg) (- halfH) (rotationDeg + 90);
          BR = move T (move T centerLngLat (- halfW) rotationDeg) (- halfH) (rotationDeg + 90);
          BL = move T (move T centerLngLat (- halfW) rotationDeg) halfH (rotationDeg + 90)
      in polygon [[TL, TR, BR, BL, TL]] props)"

definition gridCenters :: "turf \<Rightarrow> feature \<Rightarrow> real \<Rightarrow> position list" where
  "gridCenters T sitePoly stepMeters =
     (let bb = bbox T sitePoly;
          stepKm = metersToKm stepMeters;
          grid = pointGrid T bb stepKm
      in filter (\<lambda>pt. booleanPointInPolygon T pt sitePoly) grid)"

section \<open>Layout generator\<close>

record ptype =
  tid :: string
  w :: real
  h :: real

record gen_args =
  sitePolygon :: "feature option"
  types :: "ptype list"
  aisleWidth :: real
  rotation :: real
  seed :: "real option"
  jitter :: real
  maxBlocks :: jsval

text \<open>\<^verbatim>\<open>Math.max(5, Math.max(...types.map(t => t.w)) + aisleWidth)\<close>: the inner maximum
  of no arguments is \<^verbatim>\<open>-Infinity\<close>, which makes the step 5.\<close>

definition step_of :: "ptype list \<Rightarrow> real \<Rightarrow> real" where
  "step_of ts aisle =
     (case map w ts of [] \<Rightarrow> 5 | x # xs \<Rightarrow> max 5 (foldl max x xs + aisle))"

text \<open>The rectangle the loop body builds for one candidate centre and one type, from the
  two numbers drawn for it.\<close>

definition jittered_rect :: "turf \<Rightarrow> gen_args \<Rightarrow> position \<Rightarrow> ptype \<Rightarrow> real \<Rightarrow> real \<Rightarrow> feature" where
  "jittered_rect T A c t r1 r2 =
     (let jw = (r1 - 0.5) * jitter A;
          jh = (r2 - 0.5) * jitter A;
          jCenter = destination T c (hypot jw jh / 1000) (atan2 jw jh * 180 / pi)
      in buildRect T jCenter (w t) (h t) (rotation A)
           [(''role'', PStr ''block''), (''type'', PStr (tid t))])"

text \<open>
  The two nested loops of \<^verbatim>\<open>generateBlocks\<close> run over the pairs of a candidate centre
  and a type, centres outermost. \<^verbatim>\<open>continue\<close> goes on with the next pair, the
  \<^verbatim>\<open>return\<close> in the body leaves both loops. The arguments after the pairs are the
  generator, \<^verbatim>\<open>out\<close> and \<^verbatim>\<open>count\<close>.
\<close>

fun place_loop ::
  "turf \<Rightarrow> feature \<Rightarrow> gen_args \<Rightarrow> (position \<times> ptype) list \<Rightarrow> rng \<Rightarrow> feature list \<Rightarrow> nat
     \<Rightarrow> feature list" where
  "place_loop T site A [] g out count = out"
| "place_loop T site A ((c, t) # rest) g out count =
     (let (r1, g1) = rng_call g;
          (r2, g2) = rng_call g1;
          rect = jittered_rect T A c t r1 r2
      in if \<not> booleanWithin T rect site then place_loop T site A rest g2 out count
         else
           (case buffer T site (- aisleWidth A / 2 / 1000) of
              None \<Rightarrow> place_loop T site A rest g2 out count
            | Some inset \<Rightarrow>
                (case geometry inset of
                   GeometryCollection gs \<Rightarrow> place_loop T site A rest g2 out count
                 | _ \<Rightarrow>
                     if \<not> booleanWithin T rect inset then place_loop T site A rest g2 out count
                     else
                       (let out' = out @ [rect]; count' = count + 1
                        in if truthy (maxBlocks A) \<and> count_ge count' (maxBlocks A) then out'
                           else place_loop T site A rest g2 out' count'))))"

definition generateBlocks :: "turf \<Rightarrow> gen_args \<Rightarrow> collection" where
  "generateBlocks T A =
     (case sitePolygon A of
        None \<Rightarrow> featureCollection []
      | Some site \<Rightarrow>
          (let g = mulberry32 (case seed A of None \<Rightarrow> 1 | Some s \<Rightarrow> s);
               step = step_of (types A) (aisleWidth A);
               centers = gridCenters T site step
           in featureCollection
                (place_loop T site A (List.product centers (types A)) g [] 0)))"

text \<open>
  The generator as the closure it is. \<^verbatim>\<open>geometry.js\<close> declares no variable outside its
  functions; the only variable that lives longer than one statement is the \<^verbatim>\<open>a\<close> that
  \<^verbatim>\<open>mulberry32\<close> captures. In the following model this variable is a cell of a store
  that outlives the invocations: \<^verbatim>\<open>mulberry32(a)\<close> allocates a new cell and returns its
  address, each call of the closure reads and writes that cell, and cells of generators
  made earlier stay in the store. \<open>generateBlocks_heap\<close> is \<^verbatim>\<open>generateBlocks\<close> on this
  store; it returns the collection and the store it leaves behind.
\<close>

type_synonym heap = "real list"

definition mulberry32_heap :: "real \<Rightarrow> heap \<Rightarrow> nat \<times> heap" where
  "mulberry32_heap a hp = (length hp, hp @ [a])"

definition rng_heap :: "nat \<Rightarrow> heap \<Rightarrow> real \<times> heap" where
  "rng_heap p hp = (let (r, g) = rng_call (Rng (hp ! p)) in (r, hp[p := rng_a g]))"

fun place_loop_heap ::
  "turf \<Rightarrow> feature \<Rightarrow> gen_args \<Rightarrow> (position \<times> ptype) list \<Rightarrow> nat \<Rightarrow> heap \<Rightarrow> feature list \<Rightarrow> nat
     \<Rightarrow> feature list \<times> heap" where
  "place_loop_heap T site A [] p hp out count = (out, hp)"
| "place_loop_heap T site A ((c, t) # rest) p hp out count =
     (let (r1, hp1) = rng_heap p hp;
          (r2, hp2) = rng_heap p hp1;
          rect = jittered_rect T A c t r1 r2
      in if \<not> booleanWithin T rect site then place_loop_heap T site A rest p hp2 out count
         else
           (case buffer T site (- aisleWidth A / 2 / 1000) of
              None \<Rightarrow> place_loop_heap T site A rest p hp2 out count
            | Some inset \<Rightarrow>
                (case geometry inset of
                   GeometryCollection gs \<Rightarrow> place_loop_heap T site A rest p hp2 out count
                 | _ \<Rightarrow>
                     if \<not> booleanWithin T rect inset
                     then place_loop_heap T site A rest p hp2 out count
                     else
                       (let out' = out @ [rect]; count' = count + 1
                        in if truthy (maxBlocks A) \<and> count_ge count' (maxBlocks A)
                           then (out', hp2)
                           else place_loop_heap T site A rest p hp2 out' count'))))"

definition generateBlocks_heap :: "turf \<Rightarrow> gen_args \<Rightarrow> heap \<Rightarrow> collection \<times> heap" where
  "generateBlocks_heap T A hp =
     (case sitePolygon A of
        None \<Rightarrow> (featureCollection [], hp)
      | Some site \<Rightarrow>
          (let (p, hp0) = mulberry32_heap (case seed A of None \<Rightarrow> 1 | Some s \<Rightarrow> s) hp;
               step = step_of (types A) (aisleWidth A);
               centers = gridCenters T site step;
               (out, hp') = place_loop_heap T site A (List.product centers (types A)) p hp0 [] 0
           in (featureCollection out, hp')))"

section \<open>Layout validator\<close>

datatype issue =
    Clash nat nat real feature
  | Aisle nat nat feature
  | Boundary nat feature
  | Turning feature

record val_args =
  site :: "feature option"
  blocks :: collection
  minAisle :: real
  boundaryClearance :: real
  turnRadius :: real

text \<open>The index pairs \<open>(i, j)\<close> with \<open>i < j < n\<close> in the order of the two nested
  \<^verbatim>\<open>for\<close> loops.\<close>

definition index_pairs :: "nat \<Rightarrow> (nat \<times> nat) list" where
  "index_pairs n = concat (map (\<lambda>i. map (Pair i) [i + 1 ..< n]) [0 ..< n])"

text \<open>(1) Clash detection. The last argument is the array \<^verbatim>\<open>issues\<close>.\<close>

fun clash_loop :: "turf \<Rightarrow> feature list \<Rightarrow> (nat \<times> nat) list \<Rightarrow> issue list \<Rightarrow> issue list" where
  "clash_loop T fs [] issues = issues"
| "clash_loop T fs ((i, j) # rest) issues =
     (let a = fs ! i; b = fs ! j
      in if booleanIntersects T a b then
           (case intersect T a b of
              None \<Rightarrow> clash_loop T fs rest issues
            | Some inter_g \<Rightarrow> clash_loop T fs rest (issues @ [Clash i j (area T inter_g) inter_g]))
         else clash_loop T fs rest issues)"

text \<open>
  (2) Minimum aisle width. \<^verbatim>\<open>buf\<close> holds what \<^verbatim>\<open>turf.buffer\<close> returned for each
  block, \<^verbatim>\<open>undefined\<close> included; \<^verbatim>\<open>turf.booleanIntersects\<close> reads the \<^verbatim>\<open>type\<close> of
  its arguments and throws a TypeError on \<^verbatim>\<open>undefined\<close>.
\<close>

fun aisle_loop ::
  "turf \<Rightarrow> feature option list \<Rightarrow> (nat \<times> nat) list \<Rightarrow> issue list \<Rightarrow> error + issue list" where
  "aisle_loop T buf [] issues = Inr issues"
| "aisle_loop T buf ((i, j) # rest) issues =
     (case (buf ! i, buf ! j) of
        (Some bi, Some bj) \<Rightarrow>
          if booleanIntersects T bi bj then
            (case intersect T bi bj of
               None \<Rightarrow> aisle_loop T buf rest issues
             | Some inter_g \<Rightarrow> aisle_loop T buf rest (issues @ [Aisle i j inter_g]))
          else aisle_loop T buf rest issues
      | _ \<Rightarrow> Inl TypeError)"

definition aisle_check :: "turf \<Rightarrow> feature list \<Rightarrow> real \<Rightarrow> issue list \<Rightarrow> error + issue list" where
  "aisle_check T fs m issues =
     (if 0 < m then
        (let buf = map (\<lambda>f. buffer T f (m / 1000)) fs
         in aisle_loop T buf (index_pairs (length buf)) issues)
      else Inr issues)"

text \<open>
  (3) Boundary clearance. \<^verbatim>\<open>turf.buffer\<close> throws on a null site
  (\<^verbatim>\<open>geojson is required\<close>); \<^verbatim>\<open>inset\<close> is used as the library returned it, and
  \<^verbatim>\<open>turf.booleanWithin\<close> throws a TypeError when it is \<^verbatim>\<open>undefined\<close>.
\<close>

fun boundary_loop ::
  "turf \<Rightarrow> feature option \<Rightarrow> feature list \<Rightarrow> nat list \<Rightarrow> issue list \<Rightarrow> error + issue list" where
  "boundary_loop T inset fs [] issues = Inr issues"
| "boundary_loop T inset fs (i # rest) issues =
     (let f = fs ! i
      in case inset of
           None \<Rightarrow> Inl TypeError
         | Some ins \<Rightarrow>
             if \<not> booleanWithin T f ins then boundary_loop T inset fs rest (issues @ [Boundary i f])
             else boundary_loop T inset fs rest issues)"

definition boundary_check ::
  "turf \<Rightarrow> feature option \<Rightarrow> feature list \<Rightarrow> real \<Rightarrow> issue list \<Rightarrow> error + issue list" where
  "boundary_check T s fs bc issues =
     (if 0 < bc then
        (case s of
           None \<Rightarrow> Inl TurfError
         | Some st \<Rightarrow>
             (let inset = buffer T st (- bc / 1000)
              in boundary_loop T inset fs [0 ..< length fs] issues))
      else Inr issues)"

text \<open>(4) Truck turning. \<^verbatim>\<open>turf.centroid\<close> of a null site has no coordinates to average
  and throws.\<close>

definition turning_check ::
  "turf \<Rightarrow> feature option \<Rightarrow> real \<Rightarrow> issue list \<Rightarrow> error + issue list" where
  "turning_check T s r issues =
     (if 0 < r then
        (case s of
           None \<Rightarrow> Inl TurfError
         | Some st \<Rightarrow>
             (let c = centroid T st;
                  circ = circle T c (metersToKm r) 64
              in if \<not> booleanWithin T circ st then Inr (issues @ [Turning circ])
                 else Inr issues))
      else Inr issues)"

definition validateLayout :: "turf \<Rightarrow> val_args \<Rightarrow> error + issue list" where
  "validateLayout T A =
     (let fs = features (blocks A);
          issues1 = clash_loop T fs (index_pairs (length fs)) []
      in case aisle_check T fs (minAisle A) issues1 of
           Inl e \<Rightarrow> Inl e
         | Inr issues2 \<Rightarrow>
             (case boundary_check T (site A) fs (boundaryClearance A) issues2 of
                Inl e \<Rightarrow> Inl e
              | Inr issues3 \<Rightarrow> turning_check T (site A) (turnRadius A) issues3))"

fun is_clash :: "issue \<Rightarrow> bool" where
  "is_clash (Clash i j ar g) = True"
| "is_clash _ = False"

fun is_aisle :: "issue \<Rightarrow> bool" where
  "is_aisle (Aisle i j g) = True"
| "is_aisle _ = False"

section \<open>Heat field generator\<close>

definition heat_cell :: "turf \<Rightarrow> feature \<Rightarrow> position list \<Rightarrow> feature \<Rightarrow> feature list" where
  "heat_cell T st sources cell =
     (let c = center T cell
      in if \<not> booleanPointInPolygon T c st then []
         else
           (let dists = map (\<lambda>s. distance T c s) sources;
                val = 1 / (foldl min (hd dists) (tl dists) + 0.001)
            in [\<lparr>geometry = geometry cell, properties = [(''value'', PNum val)]\<rparr>]))"

definition generateHeatSquares :: "turf \<Rightarrow> feature option \<Rightarrow> position list \<Rightarrow> real \<Rightarrow> collection" where
  "generateHeatSquares T s sources cellM =
     (case s of
        None \<Rightarrow> featureCollection []
      | Some st \<Rightarrow>
          if length sources = 0 then featureCollection []
          else
            (let bb = bbox T st;
                 grid = squareGrid T bb (metersToKm cellM)
             in featureCollection (concat (map (heat_cell T st sources) grid))))"

section \<open>Grid snapper\<close>

definition Math_round :: "real \<Rightarrow> real" where
  "Math_round x = of_int \<lfloor>x + 1 / 2\<rfloor>"

definition snapLngLat :: "turf \<Rightarrow> position \<Rightarrow> real \<Rightarrow> position \<Rightarrow> position" where
  "snapLngLat T c spacingM origin =
     (let lng = fst c; lat = snd c;
          north = distance T origin (fst origin, snd origin + 0.01);
          east = distance T origin (fst origin + 0.01, snd origin);
          mPerDegLat = kmToMeters north / 0.01;
          mPerDegLng = kmToMeters east / 0.01;
          x = (lng - fst origin) * mPerDegLng;
          y = (lat - snd origin) * mPerDegLat;
          sx = Math_round (x / spacingM) * spacingM;
          sy = Math_round (y / spacingM) * spacingM
      in (fst origin + sx / mPerDegLng, snd origin + sy / mPerDegLat))"

text \<open>The innermost \<^verbatim>\<open>linear.map((c, i) => ...)\<close>; \<^verbatim>\<open>prev\<close> is the vertex before
  \<^verbatim>\<open>c\<close> in the ring as it was given.\<close>

definition snap_linear :: "turf \<Rightarrow> real \<Rightarrow> position \<Rightarrow> bool \<Rightarrow> position list \<Rightarrow> position list" where
  "snap_linear T spacingM origin orthogonal linear_ring =
     map (\<lambda>i.
            let c = linear_ring ! i;
                snapped = snapLngLat T c spacingM origin
            in if \<not> orthogonal \<or> i = 0 then snapped
               else
                 (let prev = linear_ring ! (i - 1);
                      dx = fst snapped - fst prev;
                      dy = snd snapped - snd prev
                  in if \<bar>dx\<bar> > \<bar>dy\<bar> then (fst snapped, snd prev)
                     else (fst prev, snd snapped)))
         [0 ..< length linear_ring]"

text \<open>\<^verbatim>\<open>JSON.parse(JSON.stringify(feature))\<close> builds a new object with the same contents;
  values of the model have no identity, so the copy is the value itself.\<close>

definition json_copy :: "feature \<Rightarrow> feature" where
  "json_copy f = f"

definition snapFeatureToGrid :: "turf \<Rightarrow> feature \<Rightarrow> real \<Rightarrow> position \<Rightarrow> bool \<Rightarrow> feature" where
  "snapFeatureToGrid T feat spacingM origin orthogonal =
     (let f = json_copy feat;
          snap_rings = map (\<lambda>ring. map (snap_linear T spacingM origin orthogonal) ring)
      in case geometry f of
           Polygon coords \<Rightarrow> f\<lparr>geometry := Polygon (hd (snap_rings [coords]))\<rparr>
         | MultiPolygon coords \<Rightarrow> f\<lparr>geometry := MultiPolygon (snap_rings coords)\<rparr>
         | _ \<Rightarrow> f)"

section \<open>A planar instance of the library\<close>

text \<open>
  To run the functions on concrete inputs the library record needs a value. \<open>box_turf\<close>
  is a planar stand-in: coordinates are metres in the plane, a distance in kilometres is
  1000 coordinate units, a bearing of 0 degrees points along the second axis and one of 90
  degrees along the first, and every geometry is taken for its bounding box (the circle of
  the turning check is the square around it, the centroid is the centre of the box). On
  rectangles with sides parallel to the axes these operations are the planar readings of
  what the library computes: containment and intersection tests count the boundary as part
  of a shape (the library's defaults), an inward buffer that leaves nothing is
  \<^verbatim>\<open>undefined\<close>, an intersection without area is \<^verbatim>\<open>null\<close>, and a grid is centred
  in the bounding box it covers. The general theorems do not depend on this instance; it
  serves to evaluate them on examples.
\<close>

fun coords_of :: "geometry \<Rightarrow> position list" where
  "coords_of (Point p) = [p]"
| "coords_of (MultiPoint ps) = ps"
| "coords_of (LineString ps) = ps"
| "coords_of (MultiLineString ls) = concat ls"
| "coords_of (Polygon rs) = concat rs"
| "coords_of (MultiPolygon ps) = concat (concat ps)"
| "coords_of (GeometryCollection gs) = concat (map coords_of gs)"

definition box_bbox :: "feature \<Rightarrow> real \<times> real \<times> real \<times> real" where
  "box_bbox f =
     (case coords_of (geometry f) of
        [] \<Rightarrow> (0, 0, 0, 0)
      | c # cs \<Rightarrow>
          (foldl min (fst c) (map fst cs), foldl min (snd c) (map snd cs),
           foldl max (fst c) (map fst cs), foldl max (snd c) (map snd cs)))"

definition box_polygon :: "real \<times> real \<times> real \<times> real \<Rightarrow> (string \<times> propval) list \<Rightarrow> feature" where
  "box_polygon bb props =
     (case bb of (x0, y0, x1, y1) \<Rightarrow>
        polygon [[(x0, y0), (x1, y0), (x1, y1), (x0, y1), (x0, y0)]] props)"

definition box_destination :: "position \<Rightarrow> real \<Rightarrow> real \<Rightarrow> position" where
  "box_destination p d b =
     (fst p + d * 1000 * sin (b * pi / 180), snd p + d * 1000 * cos (b * pi / 180))"

definition box_distance :: "position \<Rightarrow> position \<Rightarrow> real" where
  "box_distance p q = sqrt ((fst p - fst q)\<^sup>2 + (snd p - snd q)\<^sup>2) / 1000"

text \<open>The lattice coordinates along one axis: as many whole cells as fit, centred
  between \<open>lo\<close> and \<open>hi\<close>. The quotient is exact; where a side is a whole multiple of
  the cell, the library's quotient of doubles can fall just below the whole number and give
  one cell fewer. The examples use sides that are no multiple of the cell.\<close>

definition box_ticks :: "real \<Rightarrow> real \<Rightarrow> real \<Rightarrow> real list" where
  "box_ticks lo hi cell =
     (if cell \<le> 0 \<or> hi < lo then []
      else
        (let n = nat \<lfloor>(hi - lo) / cell\<rfloor>;
             delta = (hi - lo - real n * cell) / 2
         in map (\<lambda>i. lo + delta + real i * cell) [0 ..< n + 1]))"

definition box_pointGrid :: "real \<times> real \<times> real \<times> real \<Rightarrow> real \<Rightarrow> position list" where
  "box_pointGrid bb cellKm =
     (case bb of (x0, y0, x1, y1) \<Rightarrow>
        List.product (box_ticks x0 x1 (cellKm * 1000)) (box_ticks y0 y1 (cellKm * 1000)))"

definition box_squareGrid :: "real \<times> real \<times> real \<times> real \<Rightarrow> real \<Rightarrow> feature list" where
  "box_squareGrid bb cellKm =
     (case bb of (x0, y0, x1, y1) \<Rightarrow>
        (let c = cellKm * 1000
         in map (\<lambda>(x, y). box_polygon (x, y, x + c, y + c) [])
              (List.product (butlast (box_ticks x0 x1 c)) (butlast (box_ticks y0 y1 c)))))"

definition box_center :: "feature \<Rightarrow> position" where
  "box_center f = (case box_bbox f of (x0, y0, x1, y1) \<Rightarrow> ((x0 + x1) / 2, (y0 + y1) / 2))"

definition box_circle :: "position \<Rightarrow> real \<Rightarrow> nat \<Rightarrow> feature" where
  "box_circle c r steps =
     box_polygon (fst c - r * 1000, snd c - r * 1000, fst c + r * 1000, snd c + r * 1000) []"

definition box_contains :: "real \<times> real \<times> real \<times> real \<Rightarrow> real \<times> real \<times> real \<times> real \<Rightarrow> bool" where
  "box_contains outer inner =
     (case outer of (x0, y0, x1, y1) \<Rightarrow>
      case inner of (u0, v0, u1, v1) \<Rightarrow> x0 \<le> u0 \<and> y0 \<le> v0 \<and> u1 \<le> x1 \<and> v1 \<le> y1)"

definition box_pointInPolygon :: "position \<Rightarrow> feature \<Rightarrow> bool" where
  "box_pointInPolygon p f = box_contains (box_bbox f) (fst p, snd p, fst p, snd p)"

definition box_within :: "feature \<Rightarrow> feature \<Rightarrow> bool" where
  "box_within f g = box_contains (box_bbox g) (box_bbox f)"

definition box_meet :: "real \<times> real \<times> real \<times> real \<Rightarrow> real \<times> real \<times> real \<times> real
    \<Rightarrow> real \<times> real \<times> real \<times> real" where
  "box_meet a b =
     (case a of (x0, y0, x1, y1) \<Rightarrow>
      case b of (u0, v0, u1, v1) \<Rightarrow> (max x0 u0, max y0 v0, min x1 u1, min y1 v1))"

definition box_intersects :: "feature \<Rightarrow> feature \<Rightarrow> bool" where
  "box_intersects f g =
     (case box_meet (box_bbox f) (box_bbox g) of (x0, y0, x1, y1) \<Rightarrow> x0 \<le> x1 \<and> y0 \<le> y1)"

definition box_intersect :: "feature \<Rightarrow> feature \<Rightarrow> feature option" where
  "box_intersect f g =
     (case box_meet (box_bbox f) (box_bbox g) of (x0, y0, x1, y1) \<Rightarrow>
        if x0 < x1 \<and> y0 < y1 then Some (box_polygon (x0, y0, x1, y1) []) else None)"

definition box_buffer :: "feature \<Rightarrow> real \<Rightarrow> feature option" where
  "box_buffer f r =
     (case box_bbox f of (x0, y0, x1, y1) \<Rightarrow>
        (let d = r * 1000
         in if x0 - d < x1 + d \<and> y0 - d < y1 + d
            then Some (box_polygon (x0 - d, y0 - d, x1 + d, y1 + d) (properties f))
            else None))"

definition box_area :: "feature \<Rightarrow> real" where
  "box_area f = (case box_bbox f of (x0, y0, x1, y1) \<Rightarrow> (x1 - x0) * (y1 - y0))"

definition box_turf :: turf where
  "box_turf =
     \<lparr>destination = box_destination, distance = box_distance, bbox = box_bbox,
      pointGrid = box_pointGrid, squareGrid = box_squareGrid, center = box_center,
      centroid = box_center, circle = box_circle,
      booleanPointInPolygon = box_pointInPolygon, booleanWithin = box_within,
      booleanIntersects = box_intersects, intersect = box_intersect, buffer = box_buffer,
      area = box_area\<rparr>"








section \<open>Example inputs\<close>

definition demo_site :: feature where
  "demo_site = polygon [[(0, 0), (4, 0), (4, 9), (0, 9), (0, 0)]] []"

definition demo_type :: ptype where
  "demo_type = \<lparr>tid = ''t'', w = 2, h = 2\<rparr>"

definition demo_args :: gen_args where
  "demo_args =
     \<lparr>sitePolygon = Some demo_site, types = [demo_type], aisleWidth = 1, rotation = 0,
      seed = Some 1, jitter = 0, maxBlocks = Number 1\<rparr>"

section \<open>Derived notions used in the statements\<close>

text \<open>The three tests a rectangle passes before \<^verbatim>\<open>generateBlocks\<close> pushes it: within
  the site, the inset exists and is no geometry collection, within the inset.\<close>

definition accepts :: "turf \<Rightarrow> feature \<Rightarrow> gen_args \<Rightarrow> feature \<Rightarrow> bool" where
  "accepts T st A rect =
     (booleanWithin T rect st \<and>
      (case buffer T st (- aisleWidth A / 2 / 1000) of
         None \<Rightarrow> False
       | Some inset \<Rightarrow>
           (case geometry inset of
              GeometryCollection gs \<Rightarrow> False
            | _ \<Rightarrow> booleanWithin T rect inset)))"

text \<open>The rectangles of all pairs of a centre and a type, each built from the next two
  numbers of the generator.\<close>

fun placements :: "turf \<Rightarrow> gen_args \<Rightarrow> (position \<times> ptype) list \<Rightarrow> rng \<Rightarrow> feature list" where
  "placements T A [] g = []"
| "placements T A ((c, t) # rest) g =
     jittered_rect T A c t (fst (rng_call g)) (fst (rng_call (snd (rng_call g))))
       # placements T A rest (snd (rng_call (snd (rng_call g))))"

text \<open>Two blocks are too close for an aisle of \<open>m\<close> metres when their buffers exist,
  intersect and have an intersection: the test of the aisle check.\<close>

definition buffers_overlap :: "turf \<Rightarrow> real \<Rightarrow> feature \<Rightarrow> feature \<Rightarrow> bool" where
  "buffers_overlap T m f g =
     (case (buffer T f (m / 1000), buffer T g (m / 1000)) of
        (Some bf, Some bg) \<Rightarrow> booleanIntersects T bf bg \<and> intersect T bf bg \<noteq> None
      | _ \<Rightarrow> False)"

fun geometry_type :: "geometry \<Rightarrow> string" where
  "geometry_type (Point p) = ''Point''"
| "geometry_type (MultiPoint ps) = ''MultiPoint''"
| "geometry_type (LineString ps) = ''LineString''"
| "geometry_type (MultiLineString ls) = ''MultiLineString''"
| "geometry_type (Polygon rs) = ''Polygon''"
| "geometry_type (MultiPolygon ps) = ''MultiPolygon''"
| "geometry_type (GeometryCollection gs) = ''GeometryCollection''"

definition demo_block :: "real \<Rightarrow> real \<Rightarrow> feature" where
  "demo_block x y =
     polygon [[(x + 1, y + 1), (x - 1, y + 1), (x - 1, y - 1), (x + 1, y - 1), (x + 1, y + 1)]]
       [(''role'', PStr ''block''), (''type'', PStr ''t'')]"


definition demo_line :: feature where
  "demo_line = \<lparr>geometry = LineString [(0, 0), (3, 4)], properties = []\<rparr>"

definition demo_val_args :: val_args where
  "demo_val_args =
     \<lparr>site = Some demo_site, blocks = featureCollection [], minAisle = 0,
      boundaryClearance = 0, turnRadius = 0\<rparr>"

definition demo_two_blocks :: val_args where
  "demo_two_blocks =
     demo_val_args\<lparr>blocks := featureCollection [demo_block 2 2, demo_block 2 7]\<rparr>"

section \<open>The placement loop\<close>

lemma place_loop_Cons:
  "place_loop T st A ((c, t) # rest) g out count =
     (let rect = jittered_rect T A c t (fst (rng_call g)) (fst (rng_call (snd (rng_call g))));
          g2 = snd (rng_call (snd (rng_call g)))
      in if \<not> accepts T st A rect then place_loop T st A rest g2 out count
         else if truthy (maxBlocks A) \<and> count_ge (count + 1) (maxBlocks A) then out @ [rect]
         else place_loop T st A rest g2 (out @ [rect]) (count + 1))"
  by (simp add: accepts_def Let_def case_prod_beta split: option.splits geometry.splits)

lemma place_loop_accepts:
  "\<forall>b \<in> set out. accepts T st A b \<Longrightarrow> \<forall>b \<in> set (place_loop T st A ps g out count). accepts T st A b"
proof (induction ps arbitrary: g out count)
  case Nil
  then show ?case by simp
next
  case (Cons p ps)
  obtain c t where p: "p = (c, t)" by (cases p)
  show ?case
    unfolding p place_loop_Cons Let_def
    using Cons.prems by (auto intro!: Cons.IH)
qed

lemma place_loop_uncapped:
  "\<not> truthy (maxBlocks A) \<Longrightarrow>
   place_loop T st A ps g out count = out @ filter (accepts T st A) (placements T A ps g)"
proof (induction ps arbitrary: g out count)
  case Nil
  then show ?case by simp
next
  case (Cons p ps)
  obtain c t where p: "p = (c, t)" by (cases p)
  show ?case
    unfolding p place_loop_Cons Let_def
    using Cons.prems by (simp add: Cons.IH)
qed

lemma place_loop_capped:
  "maxBlocks A = Number (real N) \<Longrightarrow> count < N \<Longrightarrow>
   place_loop T st A ps g out count
     = out @ take (N - count) (filter (accepts T st A) (placements T A ps g))"
proof (induction ps arbitrary: g out count)
  case Nil
  then show ?case by simp
next
  case (Cons p ps)
  obtain c t where p: "p = (c, t)" by (cases p)
  let ?rect = "jittered_rect T A c t (fst (rng_call g)) (fst (rng_call (snd (rng_call g))))"
  let ?g2 = "snd (rng_call (snd (rng_call g)))"
  show ?case
  proof (cases "accepts T st A ?rect")
    case False
    then show ?thesis
      unfolding p place_loop_Cons Let_def
      using Cons.prems by (simp add: Cons.IH)
  next
    case True
    show ?thesis
    proof (cases "count + 1 < N")
      case less: True
      have "place_loop T st A (p # ps) g out count = place_loop T st A ps ?g2 (out @ [?rect]) (count + 1)"
        unfolding p place_loop_Cons Let_def using True less Cons.prems by simp
      also have "\<dots> = (out @ [?rect]) @ take (N - (count + 1)) (filter (accepts T st A) (placements T A ps ?g2))"
        using Cons.prems less by (intro Cons.IH) simp_all
      also have "\<dots> = out @ take (N - count) (filter (accepts T st A) (placements T A (p # ps) g))"
        using True less unfolding p by (simp add: take_Cons')
      finally show ?thesis .
    next
      case False
      with Cons.prems have eq: "N = count + 1" by simp
      have "place_loop T st A (p # ps) g out count = out @ [?rect]"
        unfolding p place_loop_Cons Let_def using True eq Cons.prems by simp
      then show ?thesis
        using True eq unfolding p by simp
    qed
  qed
qed

lemma rng_heap_eq:
  "rng_heap p hp = (fst (rng_call (Rng (hp ! p))), hp[p := rng_a (snd (rng_call (Rng (hp ! p))))])"
  by (simp add: rng_heap_def case_prod_beta)

lemma place_loop_heap_eq:
  "p < length hp \<Longrightarrow>
   \<exists>x. place_loop_heap T st A ps p hp out count
         = (place_loop T st A ps (Rng (hp ! p)) out count, hp[p := x])"
proof (induction ps arbitrary: hp out count)
  case Nil
  have "hp = hp[p := hp ! p]" by simp
  then show ?case by (metis place_loop.simps(1) place_loop_heap.simps(1))
next
  case (Cons q ps)
  obtain c t where q: "q = (c, t)" by (cases q)
  let ?g = "Rng (hp ! p)"
  let ?g1 = "snd (rng_call ?g)"
  let ?g2 = "snd (rng_call ?g1)"
  let ?hp2 = "hp[p := rng_a ?g2]"
  have len: "p < length ?hp2" using Cons.prems by simp
  have g2: "Rng (?hp2 ! p) = ?g2" using Cons.prems by simp
  have two: "rng_heap p (snd (rng_heap p hp)) = (fst (rng_call ?g1), ?hp2)"
    using Cons.prems by (simp add: rng_heap_eq)
  have one: "fst (rng_heap p hp) = fst (rng_call ?g)" by (simp add: rng_heap_eq)
  have upd: "\<And>x. ?hp2[p := x] = hp[p := x]" by simp
  from Cons.IH[OF len, of _ _] g2
  have IH: "\<And>out count. \<exists>x. place_loop_heap T st A ps p ?hp2 out count
         = (place_loop T st A ps ?g2 out count, hp[p := x])"
    by (simp only: upd)
  have stop: "\<And>l. \<exists>x. (l, ?hp2) = (l, hp[p := x])" by blast
  show ?case
    unfolding q place_loop_heap.simps place_loop.simps
    using IH stop
    by (simp add: case_prod_beta one two Let_def split: option.splits geometry.splits)
qed


lemma generateBlocks_heap_eq:
  "fst (generateBlocks_heap T A hp) = generateBlocks T A
   \<and> take (length hp) (snd (generateBlocks_heap T A hp)) = hp"
proof (cases "sitePolygon A")
  case None
  then show ?thesis by (simp add: generateBlocks_heap_def generateBlocks_def)
next
  case (Some st)
  let ?a = "case seed A of None \<Rightarrow> 1 | Some s \<Rightarrow> s"
  let ?ps = "List.product (gridCenters T st (step_of (types A) (aisleWidth A))) (types A)"
  have "length hp < length (hp @ [?a])" by simp
  from place_loop_heap_eq[OF this, of T st A ?ps "[]" 0]
  obtain x where "place_loop_heap T st A ?ps (length hp) (hp @ [?a]) [] 0
         = (place_loop T st A ?ps (Rng ?a) [] 0, hp @ [x])"
    by auto
  with Some show ?thesis
    by (simp add: generateBlocks_heap_def generateBlocks_def mulberry32_heap_def mulberry32_def
        Let_def)
qed

section \<open>The checks of the validator\<close>

lemma index_pairs_bounds: "(i, j) \<in> set (index_pairs n) \<Longrightarrow> i < j \<and> j < n"
  by (auto simp: index_pairs_def)

lemma index_pairs_two: "index_pairs (Suc (Suc 0)) = [(0, Suc 0)]"
  by (simp add: index_pairs_def upt_rec)

lemma index_pairs_small: "index_pairs 0 = []" "index_pairs (Suc 0) = []"
  by (simp_all add: index_pairs_def)

lemma clash_loop_aisle:
  "filter is_aisle (clash_loop T fs ps issues) = filter is_aisle issues"
  by (induction ps arbitrary: issues) (auto simp: Let_def split: option.splits)



lemma boundary_loop_kinds:
  "boundary_loop T inset fs ks issues = Inr r \<Longrightarrow>
   filter is_clash r = filter is_clash issues \<and> filter is_aisle r = filter is_aisle issues"
proof (induction ks arbitrary: issues)
  case Nil
  then show ?case by simp
next
  case (Cons k ks)
  show ?case
  proof (cases inset)
    case None
    with Cons.prems show ?thesis by simp
  next
    case (Some ins)
    show ?thesis
    proof (cases "booleanWithin T (fs ! k) ins")
      case True
      with Cons.prems Some have "boundary_loop T inset fs ks issues = Inr r" by simp
      from Cons.IH[OF this] show ?thesis .
    next
      case False
      with Cons.prems Some
      have "boundary_loop T inset fs ks (issues @ [Boundary k (fs ! k)]) = Inr r" by simp
      from Cons.IH[OF this] show ?thesis by simp
    qed
  qed
qed

lemma boundary_check_kinds:
  "boundary_check T s fs bc issues = Inr r \<Longrightarrow>
   filter is_clash r = filter is_clash issues \<and> filter is_aisle r = filter is_aisle issues"
  by (auto simp: boundary_check_def Let_def split: if_splits option.splits dest: boundary_loop_kinds)

lemma turning_check_kinds:
  "turning_check T s rad issues = Inr r \<Longrightarrow>
   filter is_clash r = filter is_clash issues \<and> filter is_aisle r = filter is_aisle issues"
  by (auto simp: turning_check_def Let_def split: if_splits option.splits)

lemma aisle_loop_count:
  assumes "\<forall>(i, j) \<in> set ps. i < length fs \<and> j < length fs"
    and "aisle_loop T (map (\<lambda>f. buffer T f (m / 1000)) fs) ps issues = Inr r"
  shows "length (filter is_aisle r) =
         length (filter is_aisle issues)
           + length (filter (\<lambda>(i, j). buffers_overlap T m (fs ! i) (fs ! j)) ps)"
  using assms
proof (induction ps arbitrary: issues)
  case Nil
  then show ?case by simp
next
  case (Cons p ps)
  obtain i j where p: "p = (i, j)" by (cases p)
  from Cons.prems(1) have ij: "i < length fs" "j < length fs" and rest: "\<forall>(i, j) \<in> set ps. i < length fs \<and> j < length fs"
    unfolding p by auto
  from Cons.prems(2) ij show ?case
    unfolding p
    by (auto simp: buffers_overlap_def split: option.splits if_splits dest!: Cons.IH[OF rest])
qed

lemma filter_length_mono:
  "(\<And>x. x \<in> set xs \<Longrightarrow> P x \<Longrightarrow> Q x) \<Longrightarrow> length (filter P xs) \<le> length (filter Q xs)"
  by (induction xs) auto


lemma validateLayout_aisles:
  assumes "validateLayout T A = Inr r"
  shows "length (filter is_aisle r) =
         (if 0 < minAisle A then
            length (filter (\<lambda>(i, j). buffers_overlap T (minAisle A) (features (blocks A) ! i) (features (blocks A) ! j))
                      (index_pairs (length (features (blocks A)))))
          else 0)"
proof -
  let ?fs = "features (blocks A)"
  let ?c = "clash_loop T ?fs (index_pairs (length ?fs)) []"
  from assms obtain r2 r3 where a: "aisle_check T ?fs (minAisle A) ?c = Inr r2"
    and b: "boundary_check T (site A) ?fs (boundaryClearance A) r2 = Inr r3"
    and t: "turning_check T (site A) (turnRadius A) r3 = Inr r"
    by (auto simp: validateLayout_def Let_def split: sum.splits)
  have "length (filter is_aisle r) = length (filter is_aisle r2)"
    using boundary_check_kinds[OF b] turning_check_kinds[OF t] by simp
  moreover have "length (filter is_aisle r2) =
         (if 0 < minAisle A then
            length (filter (\<lambda>(i, j). buffers_overlap T (minAisle A) (?fs ! i) (?fs ! j))
                      (index_pairs (length ?fs)))
          else 0)"
  proof (cases "0 < minAisle A")
    case True
    with a have "aisle_loop T (map (\<lambda>f. buffer T f (minAisle A / 1000)) ?fs) (index_pairs (length ?fs)) ?c = Inr r2"
      by (simp add: aisle_check_def)
    moreover have "\<forall>(i, j) \<in> set (index_pairs (length ?fs)). i < length ?fs \<and> j < length ?fs"
      by (auto dest: index_pairs_bounds)
    ultimately show ?thesis
      using True aisle_loop_count[of "index_pairs (length ?fs)" ?fs T "minAisle A" ?c r2]
      by (simp add: clash_loop_aisle)
  next
    case False
    with a have "r2 = ?c" by (simp add: aisle_check_def)
    with False show ?thesis by (simp add: clash_loop_aisle)
  qed
  ultimately show ?thesis by simp
qed

lemma validateLayout_empty_collection:
  "validateLayout T (V\<lparr>site := Some st, blocks := featureCollection []\<rparr>)
     = turning_check T (Some st) (turnRadius V) []"
  by (simp add: validateLayout_def featureCollection_def index_pairs_small aisle_check_def
      boundary_check_def Let_def)

lemma boundary_loop_undefined_inset:
  "ks \<noteq> [] \<Longrightarrow> boundary_loop T None fs ks issues = Inl TypeError"
  by (cases ks) simp_all

lemma length_placements: "length (placements T A ps g) = length ps"
  by (induction ps arbitrary: g) auto

section \<open>Running the planar instance\<close>

lemma box_destination_north: "box_destination p d 0 = (fst p, snd p + d * 1000)"
  by (simp add: box_destination_def)

lemma box_destination_east: "box_destination p d 90 = (fst p + d * 1000, snd p)"
  by (simp add: box_destination_def)

lemma box_fields:
  "destination box_turf = box_destination" "distance box_turf = box_distance"
  "bbox box_turf = box_bbox" "pointGrid box_turf = box_pointGrid"
  "squareGrid box_turf = box_squareGrid" "center box_turf = box_center"
  "centroid box_turf = box_center" "circle box_turf = box_circle"
  "booleanPointInPolygon box_turf = box_pointInPolygon" "booleanWithin box_turf = box_within"
  "booleanIntersects box_turf = box_intersects" "intersect box_turf = box_intersect"
  "buffer box_turf = box_buffer" "area box_turf = box_area"
  by (simp_all add: box_turf_def)

lemma box_bbox_polygon:
  "box_bbox (box_polygon (x0, y0, x1, y1) ps) = (min x0 x1, min y0 y1, max x0 x1, max y0 y1)"
  by (simp add: box_polygon_def box_bbox_def polygon_def min_def max_def)

lemma demo_site_bbox: "box_bbox demo_site = (0, 0, 4, 9)"
  by (simp add: box_bbox_def demo_site_def polygon_def)

lemma demo_site_properties: "properties demo_site = []"
  by (simp add: demo_site_def polygon_def)

lemma demo_block_bbox: "box_bbox (demo_block x y) = (x - 1, y - 1, x + 1, y + 1)"
  by (simp add: demo_block_def box_bbox_def polygon_def)

lemma demo_ticks: "box_ticks 0 4 5 = [2]" "box_ticks 0 9 5 = [2, 7]"
  by (simp_all add: box_ticks_def upt_rec)

lemma demo_centers: "gridCenters box_turf demo_site 5 = [(2, 2), (2, 7)]"
  by (simp add: gridCenters_def box_fields demo_site_bbox metersToKm_def box_pointGrid_def
      demo_ticks box_pointInPolygon_def box_contains_def)

lemma demo_rect:
  "jitter A = 0 \<Longrightarrow> rotation A = 0 \<Longrightarrow> jittered_rect box_turf A (x, y) demo_type r1 r2 = demo_block x y"
  by (simp add: jittered_rect_def hypot_def atan2_def box_fields buildRect_def move_def
      box_destination_north box_destination_east demo_type_def demo_block_def Let_def)

lemma demo_buffer:
  "box_buffer demo_site r =
     (if - 2 < r * 1000 then Some (box_polygon (- (r * 1000), - (r * 1000), 4 + r * 1000, 9 + r * 1000) [])
      else None)"
  by (simp add: box_buffer_def demo_site_bbox demo_site_properties Let_def)

lemma box_polygon_geometry: "geometry (box_polygon (x0, y0, x1, y1) ps) = Polygon [[(x0, y0), (x1, y0), (x1, y1), (x0, y1), (x0, y0)]]"
  by (simp add: box_polygon_def polygon_def)

lemma demo_accepts:
  "aisleWidth A = 1 \<Longrightarrow> accepts box_turf demo_site A (demo_block x y) = (3 / 2 \<le> x \<and> x \<le> 5 / 2 \<and> 3 / 2 \<le> y \<and> y \<le> 15 / 2)"
  by (auto simp add: accepts_def box_fields demo_buffer box_polygon_geometry box_within_def
      demo_site_bbox demo_block_bbox box_bbox_polygon box_contains_def)

lemma demo_args_fields:
  "sitePolygon demo_args = Some demo_site" "types demo_args = [demo_type]"
  "aisleWidth demo_args = 1" "rotation demo_args = 0" "seed demo_args = Some 1"
  "jitter demo_args = 0" "maxBlocks demo_args = Number 1"
  by (simp_all add: demo_args_def)

lemma demo_step: "step_of [demo_type] 1 = 5"
  by (simp add: step_of_def demo_type_def)




lemma demo_uncapped:
  "generateBlocks box_turf (demo_args\<lparr>maxBlocks := Number 0\<rparr>) =
     FeatureCollection [demo_block 2 2, demo_block 2 7]"
  by (simp add: generateBlocks_def demo_args_fields demo_step demo_centers featureCollection_def
      place_loop_uncapped demo_rect demo_accepts del: place_loop.simps)

lemma demo_capped:
  "generateBlocks box_turf demo_args = FeatureCollection [demo_block 2 2]"
proof -
  have "maxBlocks demo_args = Number (real (1::nat))" by (simp add: demo_args_fields)
  from place_loop_capped[OF this, of 0] show ?thesis
  by (simp add: generateBlocks_def demo_args_fields demo_step demo_centers featureCollection_def
       demo_rect demo_accepts del: place_loop.simps)
qed

lemma demo_val_args_fields:
  "site demo_val_args = Some demo_site" "blocks demo_val_args = featureCollection []"
  "minAisle demo_val_args = 0" "boundaryClearance demo_val_args = 0"
  "turnRadius demo_val_args = 0"
  by (simp_all add: demo_val_args_def)

lemma demo_site_center: "box_center demo_site = (2, 9 / 2)"
  by (simp add: box_center_def demo_site_bbox)

lemma demo_block_buffer:
  "0 \<le> r \<Longrightarrow> box_buffer (demo_block x y) r
     = Some (box_polygon (x - 1 - r * 1000, y - 1 - r * 1000, x + 1 + r * 1000, y + 1 + r * 1000)
              [(''role'', PStr ''block''), (''type'', PStr ''t'')])"
  by (simp add: box_buffer_def demo_block_bbox Let_def) (simp add: demo_block_def polygon_def)

lemma demo_overlap:
  "0 \<le> m \<Longrightarrow> buffers_overlap box_turf m (demo_block x y) (demo_block u v)
     = (\<bar>x - u\<bar> < 2 + 2 * m \<and> \<bar>y - v\<bar> < 2 + 2 * m)"
  by (auto simp add: buffers_overlap_def box_fields demo_block_buffer box_intersects_def
      box_intersect_def box_meet_def box_bbox_polygon)


lemma demo_aisle_1:
  "validateLayout box_turf (demo_two_blocks\<lparr>minAisle := 1\<rparr>) = Inr []"
  by (simp add: validateLayout_def demo_two_blocks_def demo_val_args_fields featureCollection_def
      index_pairs_two aisle_check_def boundary_check_def turning_check_def box_fields
      box_intersects_def box_intersect_def box_meet_def demo_block_bbox demo_block_buffer
      box_bbox_polygon Let_def)

lemma demo_aisle_2:
  "validateLayout box_turf (demo_two_blocks\<lparr>minAisle := 2\<rparr>)
     = Inr [Aisle 0 1 (box_polygon (- 1, 4, 5, 5) [])]"
  by (simp add: validateLayout_def demo_two_blocks_def demo_val_args_fields featureCollection_def
      index_pairs_two aisle_check_def boundary_check_def turning_check_def box_fields
      box_intersects_def box_intersect_def box_meet_def demo_block_bbox demo_block_buffer
      box_bbox_polygon Let_def)










section \<open>Layout generator: containment, determinism, cap\<close>

text \<open>
  Claim C1. For every call to \<^verbatim>\<open>generateBlocks\<close> with a non-null site polygon, every
  block of the returned collection lies within the site polygon and within the polygon
  obtained by buffering the site inward by \<open>aisleWidth / 2\<close> metres. Containment is
  what \<^verbatim>\<open>turf.booleanWithin\<close> decides and the inset is what \<^verbatim>\<open>turf.buffer\<close> returns
  for the radius \<open>- aisleWidth / 2 / 1000\<close> kilometres; a block in the output implies that
  this inset exists.
\<close>

theorem generateBlocks_within_site_and_inset:
  assumes "sitePolygon A = Some st"
    and "b \<in> set (features (generateBlocks T A))"
  shows "booleanWithin T b st \<and>
         (\<exists>inset. buffer T st (- aisleWidth A / 2 / 1000) = Some inset \<and> booleanWithin T b inset)"
proof -
  let ?ps = "List.product (gridCenters T st (step_of (types A) (aisleWidth A))) (types A)"
  let ?g = "mulberry32 (case seed A of None \<Rightarrow> 1 | Some s \<Rightarrow> s)"
  from assms have "b \<in> set (place_loop T st A ?ps ?g [] 0)"
    by (simp add: generateBlocks_def featureCollection_def Let_def)
  moreover have "\<forall>b \<in> set (place_loop T st A ?ps ?g [] 0). accepts T st A b"
    by (rule place_loop_accepts) simp
  ultimately have "accepts T st A b" by blast
  then show ?thesis
    by (auto simp: accepts_def split: option.splits geometry.splits)
qed

text \<open>On the example site of 4 by 9 metres the generator places the block centred at
  \<open>(2, 2)\<close>; it lies within the site and within the site shrunk by half a metre.\<close>

theorem generateBlocks_within_site_and_inset_witness:
  "sitePolygon demo_args = Some demo_site
   \<and> demo_block 2 2 \<in> set (features (generateBlocks box_turf demo_args))
   \<and> booleanWithin box_turf (demo_block 2 2) demo_site
   \<and> (\<exists>inset. buffer box_turf demo_site (- aisleWidth demo_args / 2 / 1000) = Some inset
         \<and> booleanWithin box_turf (demo_block 2 2) inset)"
proof -
  have s: "sitePolygon demo_args = Some demo_site" by (simp add: demo_args_fields)
  have b: "demo_block 2 2 \<in> set (features (generateBlocks box_turf demo_args))"
    by (simp add: demo_capped)
  from generateBlocks_within_site_and_inset[OF s b] s b show ?thesis by simp
qed

text \<open>
  Claim C2. \<^verbatim>\<open>generateBlocks\<close> is deterministic: two invocations whose arguments
  \<^verbatim>\<open>sitePolygon\<close>, \<^verbatim>\<open>types\<close>, \<^verbatim>\<open>aisleWidth\<close>, \<^verbatim>\<open>rotation\<close>, \<^verbatim>\<open>seed\<close>,
  \<^verbatim>\<open>jitter\<close> and \<^verbatim>\<open>maxBlocks\<close> agree return the same collection, the same blocks
  in the same order, whatever the store holds when each of them starts: the result does not
  depend on generators left behind by earlier invocations, in particular not on the one the
  first invocation leaves for the second, and an invocation changes no cell that existed
  before it. (The library operations are functions of their arguments.)
\<close>

theorem generateBlocks_deterministic:
  assumes "sitePolygon A = sitePolygon B" and "types A = types B"
    and "aisleWidth A = aisleWidth B" and "rotation A = rotation B"
    and "seed A = seed B" and "jitter A = jitter B" and "maxBlocks A = maxBlocks B"
  shows "fst (generateBlocks_heap T A hp1) = fst (generateBlocks_heap T B hp2)
         \<and> fst (generateBlocks_heap T B (snd (generateBlocks_heap T A hp1)))
             = fst (generateBlocks_heap T A hp1)
         \<and> take (length hp1) (snd (generateBlocks_heap T A hp1)) = hp1"
proof -
  from assms have "A = B" by (cases A, cases B) simp
  then show ?thesis by (simp add: generateBlocks_heap_eq)
qed

theorem generateBlocks_deterministic_witness:
  "fst (generateBlocks_heap box_turf demo_args []) = FeatureCollection [demo_block 2 2]
   \<and> fst (generateBlocks_heap box_turf
           \<lparr>sitePolygon = Some demo_site, types = [\<lparr>tid = ''t'', w = 2, h = 2\<rparr>], aisleWidth = 1,
            rotation = 0, seed = Some 1, jitter = 0, maxBlocks = Number 1\<rparr> [7, 11])
       = FeatureCollection [demo_block 2 2]
   \<and> fst (generateBlocks_heap box_turf demo_args (snd (generateBlocks_heap box_turf demo_args [])))
       = FeatureCollection [demo_block 2 2]"
proof -
  let ?B = "\<lparr>sitePolygon = Some demo_site, types = [\<lparr>tid = ''t'', w = 2, h = 2\<rparr>], aisleWidth = 1,
            rotation = 0, seed = Some 1, jitter = 0, maxBlocks = Number 1\<rparr>"
  have v: "fst (generateBlocks_heap box_turf demo_args []) = FeatureCollection [demo_block 2 2]"
    by (simp add: generateBlocks_heap_eq demo_capped)
  have "fst (generateBlocks_heap box_turf demo_args []) = fst (generateBlocks_heap box_turf ?B [7, 11])"
    by (rule generateBlocks_deterministic[THEN conjunct1])
       (simp_all add: demo_args_fields demo_type_def)
  moreover have "fst (generateBlocks_heap box_turf demo_args (snd (generateBlocks_heap box_turf demo_args [])))
      = fst (generateBlocks_heap box_turf demo_args [])"
    by (rule generateBlocks_deterministic[THEN conjunct2, THEN conjunct1]) simp_all
  ultimately show ?thesis using v by simp
qed

text \<open>
  Claim C3, as amended. For every call to \<^verbatim>\<open>generateBlocks\<close> with \<^verbatim>\<open>maxBlocks\<close> a
  whole number \<open>N\<close> of at least 1, the returned collection contains at most \<open>N\<close> blocks,
  for any site, type list, seed and jitter. (The cap is tested only when \<^verbatim>\<open>maxBlocks\<close>
  is truthy, so \<open>N = 0\<close> does not bound the result.)
\<close>

theorem generateBlocks_cap:
  assumes "maxBlocks A = Number (real N)" and "1 \<le> N"
  shows "length (features (generateBlocks T A)) \<le> N"
proof (cases "sitePolygon A")
  case None
  then show ?thesis by (simp add: generateBlocks_def featureCollection_def)
next
  case (Some st)
  from assms have "0 < N" by simp
  from place_loop_capped[OF assms(1) this] Some show ?thesis
    by (simp add: generateBlocks_def featureCollection_def Let_def)
qed

theorem generateBlocks_cap_witness:
  "maxBlocks demo_args = Number (real (1::nat)) \<and> (1::nat) \<le> 1
   \<and> length (features (generateBlocks box_turf demo_args)) \<le> 1"
proof -
  have m: "maxBlocks demo_args = Number (real (1::nat))" by (simp add: demo_args_fields)
  from generateBlocks_cap[OF m] m show ?thesis by simp
qed

text \<open>The claim as stated fails for \<open>N = 0\<close>: on the example site with \<^verbatim>\<open>maxBlocks\<close>
  0 the generator returns two blocks.\<close>

theorem generateBlocks_cap_zero_counterexample:
  "maxBlocks (demo_args\<lparr>maxBlocks := Number 0\<rparr>) = Number (real (0::nat))
   \<and> \<not> length (features (generateBlocks box_turf (demo_args\<lparr>maxBlocks := Number 0\<rparr>))) \<le> 0"
  by (simp add: demo_uncapped)

text \<open>
  Claim C9. If \<^verbatim>\<open>maxBlocks\<close> is 0, \<^verbatim>\<open>undefined\<close> or otherwise falsy,
  \<^verbatim>\<open>generateBlocks\<close> applies no cap: it processes every combination of a candidate
  position and a type, and returns every rectangle that passes the containment tests,
  however many there are.
\<close>

theorem generateBlocks_falsy_maxBlocks:
  assumes "\<not> truthy (maxBlocks A)" and "sitePolygon A = Some st"
  shows "features (generateBlocks T A)
           = filter (accepts T st A)
               (placements T A
                  (List.product (gridCenters T st (step_of (types A) (aisleWidth A))) (types A))
                  (mulberry32 (case seed A of None \<Rightarrow> 1 | Some s \<Rightarrow> s)))
         \<and> length (placements T A
                  (List.product (gridCenters T st (step_of (types A) (aisleWidth A))) (types A))
                  (mulberry32 (case seed A of None \<Rightarrow> 1 | Some s \<Rightarrow> s)))
             = length (gridCenters T st (step_of (types A) (aisleWidth A))) * length (types A)"
  using assms
  by (simp add: generateBlocks_def featureCollection_def Let_def place_loop_uncapped
      length_placements del: place_loop.simps)

theorem generateBlocks_falsy_maxBlocks_witness:
  "\<not> truthy (maxBlocks (demo_args\<lparr>maxBlocks := Number 0\<rparr>))
   \<and> features (generateBlocks box_turf (demo_args\<lparr>maxBlocks := Number 0\<rparr>))
       = [demo_block 2 2, demo_block 2 7]
   \<and> length (gridCenters box_turf demo_site 5) * length [demo_type] = 2"
proof -
  let ?A = "demo_args\<lparr>maxBlocks := Number 0\<rparr>"
  have f: "\<not> truthy (maxBlocks ?A)" by simp
  have s: "sitePolygon ?A = Some demo_site" by (simp add: demo_args_fields)
  from generateBlocks_falsy_maxBlocks[OF f s, of box_turf] f show ?thesis
    by (simp add: demo_args_fields demo_step demo_centers demo_rect demo_accepts)
qed

section \<open>Empty inputs and degenerate geometry\<close>

text \<open>
  Claim C4, as amended. \<^verbatim>\<open>generateBlocks\<close> with a null site returns the empty
  collection; \<^verbatim>\<open>generateHeatSquares\<close> with a null site, or with an empty source list,
  returns the empty collection; \<^verbatim>\<open>validateLayout\<close> with a site and an empty block
  collection signals no error and reports no clash, aisle or boundary issue: its result is
  that of the turning check alone, one turning issue when \<^verbatim>\<open>turnRadius\<close> is positive and
  the circle does not fit the site, and the empty list otherwise. This holds for any values
  of the remaining parameters.
\<close>

theorem empty_inputs:
  "generateBlocks T (A\<lparr>sitePolygon := None\<rparr>) = featureCollection []
   \<and> generateHeatSquares T None sources cellM = featureCollection []
   \<and> generateHeatSquares T s [] cellM = featureCollection []
   \<and> validateLayout T (V\<lparr>site := Some st, blocks := featureCollection []\<rparr>)
       = Inr (if 0 < turnRadius V
                \<and> \<not> booleanWithin T (circle T (centroid T st) (metersToKm (turnRadius V)) 64) st
              then [Turning (circle T (centroid T st) (metersToKm (turnRadius V)) 64)]
              else [])"
  by (simp add: generateBlocks_def generateHeatSquares_def validateLayout_empty_collection
      turning_check_def Let_def split: option.splits)

theorem empty_inputs_witness:
  "generateBlocks box_turf (demo_args\<lparr>sitePolygon := None\<rparr>) = featureCollection []
   \<and> generateHeatSquares box_turf None [(1, 1)] 10 = featureCollection []
   \<and> generateHeatSquares box_turf (Some demo_site) [] 10 = featureCollection []
   \<and> validateLayout box_turf demo_val_args = Inr []"
proof -
  have "demo_val_args\<lparr>site := Some demo_site, blocks := featureCollection []\<rparr> = demo_val_args"
    by (simp add: demo_val_args_def)
  with empty_inputs[where T = box_turf and A = demo_args and sources = "[(1, 1)]" and cellM = 10
      and s = "Some demo_site" and V = demo_val_args and st = demo_site]
  show ?thesis by (simp add: demo_val_args_fields)
qed

text \<open>The claim as stated fails for an empty block collection: on the example site, a
  turning radius of 12.5 metres gives a turning issue although there is no block.\<close>

theorem validateLayout_no_blocks_counterexample:
  "features (blocks (demo_val_args\<lparr>turnRadius := 25 / 2\<rparr>)) = []
   \<and> validateLayout box_turf (demo_val_args\<lparr>turnRadius := 25 / 2\<rparr>)
       = Inr [Turning (box_polygon (- 21 / 2, - 8, 29 / 2, 17) [])]
   \<and> validateLayout box_turf (demo_val_args\<lparr>turnRadius := 25 / 2\<rparr>) \<noteq> Inr []"
proof -
  have "demo_val_args\<lparr>turnRadius := 25 / 2\<rparr>
          = demo_val_args\<lparr>turnRadius := 25 / 2\<rparr>\<lparr>site := Some demo_site, blocks := featureCollection []\<rparr>"
    by (simp add: demo_val_args_def)
  then have "validateLayout box_turf (demo_val_args\<lparr>turnRadius := 25 / 2\<rparr>)
          = turning_check box_turf (Some demo_site) (25 / 2) []"
    using validateLayout_empty_collection[where T = box_turf
        and V = "demo_val_args\<lparr>turnRadius := 25 / 2\<rparr>" and st = demo_site]
    by simp
  also have "\<dots> = Inr [Turning (box_polygon (- 21 / 2, - 8, 29 / 2, 17) [])]"
    by (simp add: turning_check_def box_fields demo_site_center box_circle_def metersToKm_def
        box_within_def box_bbox_polygon demo_site_bbox box_contains_def)
  finally show ?thesis
    by (simp add: demo_val_args_fields featureCollection_def)
qed

text \<open>With a null site the validator has no guard of its own: as soon as the boundary
  check runs, the library is called with the null site and throws.\<close>

lemma validateLayout_null_site:
  assumes "site V = None" and "0 < boundaryClearance V" and "minAisle V \<le> 0"
  shows "validateLayout T V = Inl TurfError"
  using assms by (simp add: validateLayout_def aisle_check_def boundary_check_def Let_def)

text \<open>
  Claim C5 says that a degenerate result of a geometric operation is skipped silently in
  every check of \<^verbatim>\<open>validateLayout\<close>. The boundary check does otherwise: when the inward
  buffer of the site is \<^verbatim>\<open>undefined\<close> and there is a block, the containment test is
  called with that value and the function ends in a TypeError. (The aisle check is
  switched off here so that the boundary check is reached.)
\<close>

theorem validateLayout_undefined_inset:
  assumes "site V = Some st"
    and "0 < boundaryClearance V"
    and "buffer T st (- boundaryClearance V / 1000) = None"
    and "features (blocks V) \<noteq> []"
    and "minAisle V \<le> 0"
  shows "validateLayout T V = Inl TypeError"
proof -
  from assms(4) have "[0 ..< length (features (blocks V))] \<noteq> []" by simp
  then show ?thesis
    using assms(1-3,5)
    by (simp add: validateLayout_def aisle_check_def boundary_check_def Let_def
        boundary_loop_undefined_inset)
qed

text \<open>The example site of 4 by 9 metres with a boundary clearance of 20 metres and one
  block.\<close>

theorem validateLayout_undefined_inset_witness:
  "site (demo_val_args\<lparr>blocks := featureCollection [demo_block 2 2], boundaryClearance := 20\<rparr>)
     = Some demo_site
   \<and> buffer box_turf demo_site (- 20 / 1000) = None
   \<and> validateLayout box_turf
        (demo_val_args\<lparr>blocks := featureCollection [demo_block 2 2], boundaryClearance := 20\<rparr>)
       = Inl TypeError"
proof -
  let ?V = "demo_val_args\<lparr>blocks := featureCollection [demo_block 2 2], boundaryClearance := 20\<rparr>"
  have s: "site ?V = Some demo_site" by (simp add: demo_val_args_fields)
  have b: "buffer box_turf demo_site (- boundaryClearance ?V / 1000) = None"
    by (simp add: box_fields demo_buffer)
  have "validateLayout box_turf ?V = Inl TypeError"
    by (rule validateLayout_undefined_inset[OF s _ b])
       (simp_all add: featureCollection_def demo_val_args_fields)
  with s b show ?thesis by simp
qed

section \<open>Layout validator: clash and aisle checks\<close>



text \<open>
  Claim C7. For a fixed site and a fixed block collection, the number of aisle issues
  that \<^verbatim>\<open>validateLayout\<close> returns does not decrease when \<^verbatim>\<open>minAisle\<close> grows: a run
  with \<open>m2\<close> reports at least as many aisle issues as a run with \<open>m1 \<le> m2\<close>. The
  library enters through one hypothesis: two blocks whose buffers of \<open>m1\<close> metres
  overlap also have overlapping buffers of \<open>m2\<close> metres. Both runs return; for
  \<open>m1 \<le> 0\<close> the first run makes no aisle check and the hypothesis is not used.
\<close>

theorem aisle_issues_monotone:
  assumes "m1 \<le> m2"
    and "validateLayout T (V\<lparr>minAisle := m1\<rparr>) = Inr r1"
    and "validateLayout T (V\<lparr>minAisle := m2\<rparr>) = Inr r2"
    and "\<forall>f \<in> set (features (blocks V)). \<forall>g \<in> set (features (blocks V)).
           buffers_overlap T m1 f g \<longrightarrow> buffers_overlap T m2 f g"
  shows "length (filter is_aisle r1) \<le> length (filter is_aisle r2)"
proof (cases "0 < m1")
  case False
  with validateLayout_aisles[OF assms(2)] show ?thesis by simp
next
  case True
  with assms(1) have pos2: "0 < m2" by simp
  let ?fs = "features (blocks V)"
  let ?ov = "\<lambda>m (i, j). buffers_overlap T m (?fs ! i) (?fs ! j)"
  have c1: "length (filter is_aisle r1) = length (filter (?ov m1) (index_pairs (length ?fs)))"
    using validateLayout_aisles[OF assms(2)] True by simp
  have c2: "length (filter is_aisle r2) = length (filter (?ov m2) (index_pairs (length ?fs)))"
    using validateLayout_aisles[OF assms(3)] pos2 by simp
  have "length (filter (?ov m1) (index_pairs (length ?fs)))
          \<le> length (filter (?ov m2) (index_pairs (length ?fs)))"
  proof (rule filter_length_mono)
    fix x assume x: "x \<in> set (index_pairs (length ?fs))" and o: "?ov m1 x"
    obtain i j where ij: "x = (i, j)" by (cases x)
    from x ij have "i < length ?fs" "j < length ?fs"
      using index_pairs_bounds[of i j "length ?fs"] by auto
    then have "?fs ! i \<in> set ?fs" "?fs ! j \<in> set ?fs" by simp_all
    with assms(4) o ij show "?ov m2 x" by auto
  qed
  with c1 c2 show ?thesis by simp
qed

text \<open>Two blocks 3 metres apart: no aisle issue for 1 metre, one for 2 metres.\<close>

theorem aisle_issues_monotone_witness:
  "(1::real) \<le> 2
   \<and> validateLayout box_turf (demo_two_blocks\<lparr>minAisle := 1\<rparr>) = Inr []
   \<and> validateLayout box_turf (demo_two_blocks\<lparr>minAisle := 2\<rparr>)
       = Inr [Aisle 0 1 (box_polygon (- 1, 4, 5, 5) [])]
   \<and> length (filter is_aisle [])
       \<le> length (filter is_aisle [Aisle 0 1 (box_polygon (- 1, 4, 5, 5) [])])"
proof -
  have lib: "\<forall>f \<in> set (features (blocks demo_two_blocks)).
             \<forall>g \<in> set (features (blocks demo_two_blocks)).
               buffers_overlap box_turf 1 f g \<longrightarrow> buffers_overlap box_turf 2 f g"
    by (simp add: demo_two_blocks_def featureCollection_def demo_overlap)
  from aisle_issues_monotone[OF _ demo_aisle_1 demo_aisle_2 lib] demo_aisle_1 demo_aisle_2
  show ?thesis by simp
qed

section \<open>Grid sampler and grid snapper\<close>




text \<open>
  Claim C10. For every feature whose geometry type is neither \<^verbatim>\<open>Polygon\<close> nor
  \<^verbatim>\<open>MultiPolygon\<close>, \<^verbatim>\<open>snapFeatureToGrid\<close> returns a copy equal to the feature, all
  coordinates unchanged, for every spacing, origin and orthogonal flag.
\<close>

theorem snapFeatureToGrid_other_geometry:
  assumes "geometry_type (geometry f) \<noteq> ''Polygon''"
    and "geometry_type (geometry f) \<noteq> ''MultiPolygon''"
  shows "snapFeatureToGrid T f spacingM origin orthogonal = f"
  using assms
  by (cases "geometry f") (simp_all add: snapFeatureToGrid_def json_copy_def Let_def)

theorem snapFeatureToGrid_other_geometry_witness:
  "geometry_type (geometry demo_line) \<noteq> ''Polygon''
   \<and> geometry_type (geometry demo_line) \<noteq> ''MultiPolygon''
   \<and> snapFeatureToGrid box_turf demo_line 5 (0, 0) True = demo_line"
proof -
  have a: "geometry_type (geometry demo_line) \<noteq> ''Polygon''" by (simp add: demo_line_def)
  have b: "geometry_type (geometry demo_line) \<noteq> ''MultiPolygon''" by (simp add: demo_line_def)
  from snapFeatureToGrid_other_geometry[OF a b] a b show ?thesis by simp
qed

end
